theory Spec2Isabelle
  imports Main "HOL-Library.Word"
begin

section \<open>The output contract of acquire (acquire/outputs/base.py)\<close>

text \<open>
  The module defines one class, \<open>Output\<close>, with an abstract primitive \<open>write\<close>, an
  abstract \<open>close\<close>, a default \<open>init\<close> and three derived operations
  (\<open>write_entry\<close>, \<open>write_bytes\<close>, \<open>write_volatile\<close>) which all end in a call of
  \<open>self.write\<close>. Methods return \<open>None\<close> or raise, and they act on the writer object, on
  the file handles they open and on nothing else; the model passes that state
  explicitly and returns the raised exception as a value.
\<close>

subsection \<open>Values\<close>

type_synonym bytes = "8 word list"

text \<open>
  The exceptions that can reach this module. \<open>OSError c\<close> is an instance of the class
  named \<open>c\<close>, which is \<open>OSError\<close> itself or one of its subclasses
  (\<open>PermissionError\<close>, \<open>FileNotFoundError\<close>, ...). \<open>Exception c\<close> is an instance of a
  class named \<open>c\<close> outside the \<open>OSError\<close> family.
\<close>

datatype exn =
  OSError string
| AttributeError
| NotImplementedError
| Exception string

type_synonym 'a result = "exn + 'a"

fun isinstance_OSError :: "exn \<Rightarrow> bool" where
  "isinstance_OSError (OSError c) = True"
| "isinstance_OSError e = False"

fun isinstance_PermissionError :: "exn \<Rightarrow> bool" where
  "isinstance_PermissionError (OSError c) = (c = ''PermissionError'')"
| "isinstance_PermissionError e = False"

text \<open>The handler of \<open>write_volatile\<close>: \<^verbatim>\<open>except (OSError, PermissionError)\<close>.\<close>

definition except_OSError_PermissionError :: "exn \<Rightarrow> bool" where
  "except_OSError_PermissionError e \<longleftrightarrow> isinstance_OSError e \<or> isinstance_PermissionError e"

text \<open>
  The two error names that only the specification uses; the module defines neither and
  raises neither.
\<close>

definition WriterClosed :: exn where
  "WriterClosed = Exception ''WriterClosed''"

definition SourceUnavailable :: exn where
  "SourceUnavailable = Exception ''SourceUnavailable''"

text \<open>
  \<^verbatim>\<open>entry: Optional[Union[FilesystemEntry, Path]]\<close>. Of an entry the module uses the
  attribute \<open>path\<close> and the method \<open>open()\<close>; both classes come from outside the module.
  The second field is what \<open>open()\<close> does: it raises, or it returns a readable stream over
  the given content. A \<open>FilesystemEntry\<close> has the attribute \<open>path\<close>; a \<open>pathlib.Path\<close>
  and \<open>None\<close> have not, so that reading it raises \<open>AttributeError\<close>, as calling
  \<open>open\<close> on \<open>None\<close> does.
\<close>

datatype entry =
  FilesystemEntry string "bytes result"
| Path string "bytes result"

fun entry_path :: "entry option \<Rightarrow> string result" where
  "entry_path None = Inl AttributeError"
| "entry_path (Some (FilesystemEntry p opn)) = Inr p"
| "entry_path (Some (Path p opn)) = Inl AttributeError"

fun entry_open_outcome :: "entry option \<Rightarrow> bytes result" where
  "entry_open_outcome None = Inl AttributeError"
| "entry_open_outcome (Some (FilesystemEntry p opn)) = opn"
| "entry_open_outcome (Some (Path p opn)) = opn"

text \<open>
  \<open>entry.open()\<close> is called with no argument. \<open>FilesystemEntry.open()\<close> returns a
  binary stream; \<open>pathlib.Path.open()\<close> has the default mode \<open>"r"\<close> and returns a
  text stream. On \<open>None\<close> the call raises before any stream exists, so the mode given
  for \<open>None\<close> is never used.
\<close>

datatype open_mode = ModeBinary | ModeText

fun entry_open_mode :: "entry option \<Rightarrow> open_mode" where
  "entry_open_mode (Some (Path p opn)) = ModeText"
| "entry_open_mode (Some (FilesystemEntry p opn)) = ModeBinary"
| "entry_open_mode None = ModeBinary"

text \<open>
  \<open>fh: BinaryIO\<close>. A stream is the in-memory \<open>io.BytesIO(data)\<close> or the stream that
  \<open>entry.open()\<close> returned, which has a handle (its index in the table of handles),
  the mode it was opened in and the bytes of the file under it.
\<close>

datatype stream =
  BytesIO bytes
| FileStream nat open_mode bytes

text \<open>
  \<open>fh.read()\<close> by a writer that stores bytes: a binary stream gives its bytes; a text
  stream gives a \<open>str\<close> (or raises \<open>UnicodeDecodeError\<close>), which such a writer cannot
  store.
\<close>

fun read_bytes :: "stream \<Rightarrow> bytes result" where
  "read_bytes (BytesIO data) = Inr data"
| "read_bytes (FileStream h ModeBinary content) = Inr content"
| "read_bytes (FileStream h ModeText content) = Inl (Exception ''TypeError'')"

subsection \<open>State\<close>

datatype fh_state = FhOpen | FhClosed

text \<open>
  The calls that the method bodies of the base class make on \<open>self\<close>, in order:
  \<open>self.write(output_path, fh, entry, size)\<close> and
  \<open>self.write_bytes(output_path, buf, entry, size)\<close>. The log is a ghost field: the
  code does not read it.
\<close>

datatype call =
  CallWrite string stream "entry option" "int option"
| CallWriteBytes string bytes "entry option" "int option"

text \<open>
  \<open>self\<close> is the state of the concrete writer, \<open>handles\<close> the file handles opened so
  far (handle \<open>h\<close> is the \<open>h\<close>-th opened), \<open>trace\<close> the log of calls on \<open>self\<close>.
\<close>

record 's world =
  self :: 's
  handles :: "fh_state list"
  trace :: "call list"

text \<open>
  What a subclass supplies: the two methods that the base class leaves abstract. Each
  takes the writer's state and returns the updated state with \<open>Inr ()\<close> (it returned
  \<open>None\<close>) or \<open>Inl e\<close> (it raised \<open>e\<close>).
\<close>

record 's output_class =
  write_impl :: "string \<Rightarrow> stream \<Rightarrow> entry option \<Rightarrow> int option \<Rightarrow> 's \<Rightarrow> unit result \<times> 's"
  close_impl :: "'s \<Rightarrow> unit result \<times> 's"

text \<open>The base class itself: \<open>write\<close> and \<open>close\<close> raise \<open>NotImplementedError\<close>.\<close>

definition Output :: "'s output_class" where
  "Output =
     \<lparr>write_impl = (\<lambda>output_path fh entry size st. (Inl NotImplementedError, st)),
      close_impl = (\<lambda>st. (Inl NotImplementedError, st))\<rparr>"

subsection \<open>The methods\<close>

text \<open>\<^verbatim>\<open>def init(self, target): pass\<close>\<close>

definition init :: "'t \<Rightarrow> 's world \<Rightarrow> unit result \<times> 's world" where
  "init target wld = (Inr (), wld)"

text \<open>
  \<open>self.write(output_path, fh, entry, size)\<close>, dispatched to the subclass
  (\<open>write\<close> is a keyword of Isabelle, hence the prime).
\<close>

definition write' ::
  "'s output_class \<Rightarrow> string \<Rightarrow> stream \<Rightarrow> entry option \<Rightarrow> int option \<Rightarrow> 's world
     \<Rightarrow> unit result \<times> 's world" where
  "write' W output_path fh entry sz wld =
     (case write_impl W output_path fh entry sz (self wld) of
        (r, st) \<Rightarrow>
          (r, wld\<lparr>self := st, trace := trace wld @ [CallWrite output_path fh entry sz]\<rparr>))"

text \<open>\<open>self.close()\<close>, dispatched to the subclass.\<close>

definition close :: "'s output_class \<Rightarrow> 's world \<Rightarrow> unit result \<times> 's world" where
  "close W wld = (case close_impl W (self wld) of (r, st) \<Rightarrow> (r, wld\<lparr>self := st\<rparr>))"

text \<open>
  \<open>entry.open()\<close>: raises, or allocates the next handle, open, and returns the stream
  in the mode of the entry's class.
\<close>

definition entry_open :: "entry option \<Rightarrow> 's world \<Rightarrow> stream result \<times> 's world" where
  "entry_open entry wld =
     (case entry_open_outcome entry of
        Inl e \<Rightarrow> (Inl e, wld)
      | Inr content \<Rightarrow>
          (Inr (FileStream (length (handles wld)) (entry_open_mode entry) content),
           wld\<lparr>handles := handles wld @ [FhOpen]\<rparr>))"

text \<open>
  \<open>fh.__exit__\<close>, which the \<open>with\<close> statement runs when its body ends, normally or by an
  exception: the stream is closed and the exception, if any, goes on.
\<close>

fun stream_exit :: "stream \<Rightarrow> 's world \<Rightarrow> 's world" where
  "stream_exit (FileStream h m content) wld =
     wld\<lparr>handles := (handles wld)[h := FhClosed]\<rparr>"
| "stream_exit (BytesIO data) wld = wld"

fun closed :: "stream \<Rightarrow> 's world \<Rightarrow> bool" where
  "closed (FileStream h m content) wld \<longleftrightarrow>
     h < length (handles wld) \<and> handles wld ! h = FhClosed"
| "closed (BytesIO data) wld \<longleftrightarrow> False"

text \<open>
  \<^verbatim>\<open>with entry.open() as fh:
      self.write(output_path, fh, entry, size)\<close>
\<close>

definition write_entry ::
  "'s output_class \<Rightarrow> string \<Rightarrow> entry option \<Rightarrow> int option \<Rightarrow> 's world
     \<Rightarrow> unit result \<times> 's world" where
  "write_entry W output_path entry sz wld =
     (case entry_open entry wld of
        (Inl e, wld1) \<Rightarrow> (Inl e, wld1)
      | (Inr fh, wld1) \<Rightarrow>
          (case write' W output_path fh entry sz wld1 of
             (r, wld2) \<Rightarrow> (r, stream_exit fh wld2)))"

text \<open>
  \<^verbatim>\<open>stream = io.BytesIO(data)
  self.write(output_path, stream, entry, size)\<close>
\<close>

definition write_bytes ::
  "'s output_class \<Rightarrow> string \<Rightarrow> bytes \<Rightarrow> entry option \<Rightarrow> int option \<Rightarrow> 's world
     \<Rightarrow> unit result \<times> 's world" where
  "write_bytes W output_path data entry sz wld =
     write' W output_path (BytesIO data) entry sz wld"

text \<open>\<open>size or len(buf)\<close>: the left operand unless it is \<open>None\<close> or \<open>0\<close>.\<close>

definition size_or_len :: "int option \<Rightarrow> bytes \<Rightarrow> int" where
  "size_or_len sz buf =
     (case sz of None \<Rightarrow> int (length buf) | Some s \<Rightarrow> if s = 0 then int (length buf) else s)"

text \<open>
  The body of the \<open>try\<close>:
  \<^verbatim>\<open>fh = acquire.utils.VolatileStream(Path(entry.path))
  buf = fh.read()
  size = size or len(buf)\<close>
  \<open>acquire.utils.VolatileStream\<close> is not part of the module, so what opening and
  reading the path gives is the parameter \<open>VolatileStream_read\<close>: the exception raised,
  or the bytes read.
\<close>

definition volatile_try ::
  "(string \<Rightarrow> bytes result) \<Rightarrow> entry option \<Rightarrow> int option \<Rightarrow> (bytes \<times> int option) result" where
  "volatile_try VolatileStream_read entry sz =
     (case entry_path entry of
        Inl e \<Rightarrow> Inl e
      | Inr p \<Rightarrow>
          (case VolatileStream_read p of
             Inl e \<Rightarrow> Inl e
           | Inr buf \<Rightarrow> Inr (buf, Some (size_or_len sz buf))))"

text \<open>\<open>self.write_bytes(output_path, buf, entry, size)\<close> as called by \<open>write_volatile\<close>.\<close>

definition self_write_bytes ::
  "'s output_class \<Rightarrow> string \<Rightarrow> bytes \<Rightarrow> entry option \<Rightarrow> int option \<Rightarrow> 's world
     \<Rightarrow> unit result \<times> 's world" where
  "self_write_bytes W output_path buf entry sz wld =
     write_bytes W output_path buf entry sz
       (wld\<lparr>trace := trace wld @ [CallWriteBytes output_path buf entry sz]\<rparr>)"

text \<open>
  \<^verbatim>\<open>try: ...
  except (OSError, PermissionError):
      buf = b""
      size = 0
  self.write_bytes(output_path, buf, entry, size)\<close>
  An exception that the handler does not match leaves the method at once.
\<close>

definition write_volatile ::
  "'s output_class \<Rightarrow> (string \<Rightarrow> bytes result) \<Rightarrow> string \<Rightarrow> entry option \<Rightarrow> int option
     \<Rightarrow> 's world \<Rightarrow> unit result \<times> 's world" where
  "write_volatile W VolatileStream_read output_path entry sz wld =
     (case volatile_try VolatileStream_read entry sz of
        Inr (buf, sz') \<Rightarrow> self_write_bytes W output_path buf entry sz' wld
      | Inl e \<Rightarrow>
          if except_OSError_PermissionError e
          then self_write_bytes W output_path [] entry (Some 0) wld
          else (Inl e, wld))"

subsection \<open>A concrete writer\<close>

text \<open>
  The smallest subclass that records something, for running the contract on concrete
  inputs: its state is the list of records written so far and whether \<open>close\<close> has run;
  \<open>write\<close> reads the stream and appends the output path, the bytes read and the size
  hint as it was given, or raises what the read raised; \<open>close\<close> sets the flag. It has
  no check of its own, like the base class.
\<close>

type_synonym listing = "(string \<times> bytes \<times> int option) list \<times> bool"

definition ListOutput :: "listing output_class" where
  "ListOutput =
     \<lparr>write_impl = (\<lambda>output_path fh entry sz st.
        case read_bytes fh of
          Inl e \<Rightarrow> (Inl e, st)
        | Inr data \<Rightarrow> (Inr (), (fst st @ [(output_path, data, sz)], snd st))),
      close_impl = (\<lambda>st. (Inr (), (fst st, True)))\<rparr>"

text \<open>
  What this writer holds under an output path: the bytes of the last record written
  there.
\<close>

definition ListOutput_artifacts :: "listing \<Rightarrow> string \<Rightarrow> bytes option" where
  "ListOutput_artifacts st = map_of (rev (map (\<lambda>(p, data, sz). (p, data)) (fst st)))"

definition world0 :: "'s \<Rightarrow> 's world" where
  "world0 st = \<lparr>self = st, handles = [], trace = []\<rparr>"

text \<open>
  A volatile filesystem to run \<open>write_volatile\<close> on: one readable file of five
  bytes, one file that the process may not read, and nothing else.
\<close>

definition procfs :: "string \<Rightarrow> bytes result" where
  "procfs p =
     (if p = ''/proc/1/comm'' then Inr [105, 110, 105, 116, 10]
      else if p = ''/proc/1/mem'' then Inl (OSError ''PermissionError'')
      else Inl (OSError ''FileNotFoundError''))"

definition comm_entry :: entry where
  "comm_entry = FilesystemEntry ''/proc/1/comm'' (Inr [105, 110, 105, 116, 10])"

definition mem_entry :: entry where
  "mem_entry = FilesystemEntry ''/proc/1/mem'' (Inl (OSError ''PermissionError''))"

definition gone_entry :: entry where
  "gone_entry = FilesystemEntry ''/var/log/gone'' (Inl SourceUnavailable)"

section \<open>Properties\<close>

subsection \<open>Helper facts\<close>

lemma write'_result:
  "write_impl W output_path fh entry sz (self wld) = (r, st) \<Longrightarrow>
   write' W output_path fh entry sz wld =
     (r, wld\<lparr>self := st, trace := trace wld @ [CallWrite output_path fh entry sz]\<rparr>)"
  by (simp add: write'_def)

lemma write'_eq:
  "write' W output_path fh entry sz wld =
     (fst (write_impl W output_path fh entry sz (self wld)),
      wld\<lparr>self := snd (write_impl W output_path fh entry sz (self wld)),
          trace := trace wld @ [CallWrite output_path fh entry sz]\<rparr>)"
  by (simp add: write'_def split: prod.splits)

lemma write'_fst:
  "fst (write' W output_path fh entry sz wld) =
     fst (write_impl W output_path fh entry sz (self wld))"
  by (simp add: write'_def split: prod.splits)

lemma write'_trace:
  "trace (snd (write' W output_path fh entry sz wld)) =
     trace wld @ [CallWrite output_path fh entry sz]"
  by (simp add: write'_def split: prod.splits)

lemma write'_handles:
  "handles (snd (write' W output_path fh entry sz wld)) = handles wld"
  by (simp add: write'_def split: prod.splits)

lemma write'_self:
  "self (snd (write' W output_path fh entry sz wld)) =
     snd (write_impl W output_path fh entry sz (self wld))"
  by (simp add: write'_def split: prod.splits)

lemma volatile_try_read:
  "entry_path entry = Inr p \<Longrightarrow> VolatileStream_read p = Inr buf \<Longrightarrow>
   volatile_try VolatileStream_read entry sz = Inr (buf, Some (size_or_len sz buf))"
  by (simp add: volatile_try_def)

lemma volatile_try_raise:
  "entry_path entry = Inr p \<Longrightarrow> VolatileStream_read p = Inl e \<Longrightarrow>
   volatile_try VolatileStream_read entry sz = Inl e"
  by (simp add: volatile_try_def)

lemma volatile_try_no_path:
  "entry_path entry = Inl e \<Longrightarrow> volatile_try VolatileStream_read entry sz = Inl e"
  by (simp add: volatile_try_def)

lemma entry_path_error:
  "entry_path entry = Inl e \<Longrightarrow> e = AttributeError"
  by (cases entry rule: entry_path.cases) simp_all

lemma not_OSError_not_caught:
  "\<not> isinstance_OSError e \<Longrightarrow> \<not> except_OSError_PermissionError e"
  by (cases e) (simp_all add: except_OSError_PermissionError_def)

lemma self_write_bytes_eq:
  "self_write_bytes W output_path buf entry sz wld =
     (fst (write_impl W output_path (BytesIO buf) entry sz (self wld)),
      wld\<lparr>self := snd (write_impl W output_path (BytesIO buf) entry sz (self wld)),
          trace := trace wld @ [CallWriteBytes output_path buf entry sz,
                                CallWrite output_path (BytesIO buf) entry sz]\<rparr>)"
  by (simp add: self_write_bytes_def write_bytes_def write'_eq)

lemma self_write_bytes_trace:
  "trace (snd (self_write_bytes W output_path buf entry sz wld)) =
     trace wld @ [CallWriteBytes output_path buf entry sz,
                  CallWrite output_path (BytesIO buf) entry sz]"
  by (simp add: self_write_bytes_def write_bytes_def write'_trace)

lemma self_write_bytes_fst:
  "fst (self_write_bytes W output_path buf entry sz wld) =
     fst (write_impl W output_path (BytesIO buf) entry sz (self wld))"
  by (simp add: self_write_bytes_def write_bytes_def write'_fst)

lemma self_write_bytes_self:
  "self (snd (self_write_bytes W output_path buf entry sz wld)) =
     snd (write_impl W output_path (BytesIO buf) entry sz (self wld))"
  by (simp add: self_write_bytes_def write_bytes_def write'_self)

lemma write_volatile_read:
  "entry_path entry = Inr p \<Longrightarrow> VolatileStream_read p = Inr buf \<Longrightarrow>
   write_volatile W VolatileStream_read output_path entry sz wld =
     (fst (write_impl W output_path (BytesIO buf) entry (Some (size_or_len sz buf)) (self wld)),
      wld\<lparr>self :=
            snd (write_impl W output_path (BytesIO buf) entry (Some (size_or_len sz buf))
                   (self wld)),
          trace := trace wld @
            [CallWriteBytes output_path buf entry (Some (size_or_len sz buf)),
             CallWrite output_path (BytesIO buf) entry (Some (size_or_len sz buf))]\<rparr>)"
  by (simp add: write_volatile_def volatile_try_read self_write_bytes_eq)

lemma write_volatile_caught:
  "entry_path entry = Inr p \<Longrightarrow> VolatileStream_read p = Inl e \<Longrightarrow> isinstance_OSError e \<Longrightarrow>
   write_volatile W VolatileStream_read output_path entry sz wld =
     (fst (write_impl W output_path (BytesIO []) entry (Some 0) (self wld)),
      wld\<lparr>self := snd (write_impl W output_path (BytesIO []) entry (Some 0) (self wld)),
          trace := trace wld @
            [CallWriteBytes output_path [] entry (Some 0),
             CallWrite output_path (BytesIO []) entry (Some 0)]\<rparr>)"
  by (simp add: write_volatile_def volatile_try_raise except_OSError_PermissionError_def
      self_write_bytes_eq)

lemma write_volatile_not_caught:
  "entry_path entry = Inr p \<Longrightarrow> VolatileStream_read p = Inl e \<Longrightarrow> \<not> isinstance_OSError e \<Longrightarrow>
   write_volatile W VolatileStream_read output_path entry sz wld = (Inl e, wld)"
  by (simp add: write_volatile_def volatile_try_raise not_OSError_not_caught)

lemma write_volatile_no_path:
  "entry_path entry = Inl e \<Longrightarrow>
   write_volatile W VolatileStream_read output_path entry sz wld = (Inl e, wld)"
proof -
  assume no_path: "entry_path entry = Inl e"
  then have "e = AttributeError"
    by (rule entry_path_error)
  then have "\<not> except_OSError_PermissionError e"
    by (simp add: except_OSError_PermissionError_def)
  with no_path show ?thesis
    by (simp add: write_volatile_def volatile_try_no_path)
qed

lemma write_entry_opened:
  "entry_open_outcome entry = Inr content \<Longrightarrow>
   write_entry W output_path entry sz wld =
     (fst (write_impl W output_path
             (FileStream (length (handles wld)) (entry_open_mode entry) content) entry sz
             (self wld)),
      \<lparr>self =
         snd (write_impl W output_path
                (FileStream (length (handles wld)) (entry_open_mode entry) content) entry sz
                (self wld)),
       handles = handles wld @ [FhClosed],
       trace = trace wld @
         [CallWrite output_path
            (FileStream (length (handles wld)) (entry_open_mode entry) content) entry sz]\<rparr>)"
  by (simp add: write_entry_def entry_open_def write'_def split: prod.splits)

subsection \<open>write_volatile\<close>

text \<open>
  C1 (as the code has it). When the volatile source is read and gives a buffer of
  length \<open>L\<close>: with no size hint, or with the hint \<open>0\<close>, the size passed on to
  \<open>write_bytes\<close> and from there to \<open>write\<close> is \<open>L\<close>; with a hint \<open>S\<close> other than
  \<open>0\<close> the size passed on is \<open>S\<close>, whatever \<open>L\<close> is. In both cases the buffer passed
  on is the one that was read, and the outcome of \<open>write_volatile\<close> and the state of
  the writer afterwards are those of \<open>write\<close> run on that buffer with that size.
\<close>

theorem write_volatile_size:
  assumes "entry_path entry = Inr p" and "VolatileStream_read p = Inr buf"
  shows "(sz = None \<or> sz = Some 0 \<longrightarrow>
            write_volatile W VolatileStream_read output_path entry sz wld =
              (fst (write_impl W output_path (BytesIO buf) entry (Some (int (length buf)))
                      (self wld)),
               wld\<lparr>self :=
                     snd (write_impl W output_path (BytesIO buf) entry
                            (Some (int (length buf))) (self wld)),
                   trace := trace wld @
                     [CallWriteBytes output_path buf entry (Some (int (length buf))),
                      CallWrite output_path (BytesIO buf) entry
                        (Some (int (length buf)))]\<rparr>))
       \<and> (\<forall>S. sz = Some S \<and> S \<noteq> 0 \<longrightarrow>
            write_volatile W VolatileStream_read output_path entry sz wld =
              (fst (write_impl W output_path (BytesIO buf) entry (Some S) (self wld)),
               wld\<lparr>self := snd (write_impl W output_path (BytesIO buf) entry (Some S) (self wld)),
                   trace := trace wld @
                     [CallWriteBytes output_path buf entry (Some S),
                      CallWrite output_path (BytesIO buf) entry (Some S)]\<rparr>))"
proof -
  have absent: "size_or_len sz buf = int (length buf)" if "sz = None \<or> sz = Some 0"
    using that by (auto simp: size_or_len_def)
  have given: "size_or_len sz buf = S" if "sz = Some S" and "S \<noteq> 0" for S
    using that by (simp add: size_or_len_def)
  have run: "write_volatile W VolatileStream_read output_path entry sz wld =
     (fst (write_impl W output_path (BytesIO buf) entry (Some (size_or_len sz buf)) (self wld)),
      wld\<lparr>self :=
            snd (write_impl W output_path (BytesIO buf) entry (Some (size_or_len sz buf))
                   (self wld)),
          trace := trace wld @
            [CallWriteBytes output_path buf entry (Some (size_or_len sz buf)),
             CallWrite output_path (BytesIO buf) entry (Some (size_or_len sz buf))]\<rparr>)"
    using assms by (rule write_volatile_read)
  show ?thesis
  proof (intro conjI allI impI)
    assume "sz = None \<or> sz = Some 0"
    then show "write_volatile W VolatileStream_read output_path entry sz wld =
        (fst (write_impl W output_path (BytesIO buf) entry (Some (int (length buf)))
                (self wld)),
         wld\<lparr>self :=
               snd (write_impl W output_path (BytesIO buf) entry
                      (Some (int (length buf))) (self wld)),
             trace := trace wld @
               [CallWriteBytes output_path buf entry (Some (int (length buf))),
                CallWrite output_path (BytesIO buf) entry (Some (int (length buf)))]\<rparr>)"
      using run absent by simp
  next
    fix S
    assume "sz = Some S \<and> S \<noteq> 0"
    then have "size_or_len sz buf = S"
      using given by blast
    then show "write_volatile W VolatileStream_read output_path entry sz wld =
        (fst (write_impl W output_path (BytesIO buf) entry (Some S) (self wld)),
         wld\<lparr>self := snd (write_impl W output_path (BytesIO buf) entry (Some S) (self wld)),
             trace := trace wld @
               [CallWriteBytes output_path buf entry (Some S),
                CallWrite output_path (BytesIO buf) entry (Some S)]\<rparr>)"
      using run by simp
  qed
qed

theorem write_volatile_size_witness:
  "write_volatile ListOutput procfs ''proc/1/comm'' (Some comm_entry) (Some 0)
     (world0 ([], False)) =
   (Inr (),
    \<lparr>self = ([(''proc/1/comm'', [105, 110, 105, 116, 10], Some 5)], False),
     handles = [],
     trace =
       [CallWriteBytes ''proc/1/comm'' [105, 110, 105, 116, 10] (Some comm_entry) (Some 5),
        CallWrite ''proc/1/comm'' (BytesIO [105, 110, 105, 116, 10]) (Some comm_entry)
          (Some 5)]\<rparr>)
   \<and> write_volatile ListOutput procfs ''proc/1/comm'' (Some comm_entry) (Some 3)
       (world0 ([], False)) =
   (Inr (),
    \<lparr>self = ([(''proc/1/comm'', [105, 110, 105, 116, 10], Some 3)], False),
     handles = [],
     trace =
       [CallWriteBytes ''proc/1/comm'' [105, 110, 105, 116, 10] (Some comm_entry) (Some 3),
        CallWrite ''proc/1/comm'' (BytesIO [105, 110, 105, 116, 10]) (Some comm_entry)
          (Some 3)]\<rparr>)"
proof -
  have path: "entry_path (Some comm_entry) = Inr ''/proc/1/comm''"
    by (simp add: comm_entry_def)
  have rd: "procfs ''/proc/1/comm'' = Inr [105, 110, 105, 116, 10]"
    by (simp add: procfs_def)
  show ?thesis
    using
      write_volatile_size [where entry = "Some comm_entry" and p = "''/proc/1/comm''"
        and VolatileStream_read = procfs and buf = "[105, 110, 105, 116, 10]"
        and sz = "Some 0" and W = ListOutput and output_path = "''proc/1/comm''"
        and wld = "world0 ([], False)"]
      write_volatile_size [where entry = "Some comm_entry" and p = "''/proc/1/comm''"
        and VolatileStream_read = procfs and buf = "[105, 110, 105, 116, 10]"
        and sz = "Some 3" and W = ListOutput and output_path = "''proc/1/comm''"
        and wld = "world0 ([], False)"]
      path rd
    by (simp add: ListOutput_def world0_def)
qed

text \<open>
  C1 as the specification states it fails: the file holds 5 bytes, the caller's hint is
  4096, and the size that reaches \<open>write_bytes\<close> and the record is 4096, not 5.
\<close>

theorem write_volatile_size_counterexample:
  "write_volatile ListOutput procfs ''proc/1/comm'' (Some comm_entry) (Some 4096)
     (world0 ([], False)) =
   (Inr (),
    \<lparr>self = ([(''proc/1/comm'', [105, 110, 105, 116, 10], Some 4096)], False),
     handles = [],
     trace =
       [CallWriteBytes ''proc/1/comm'' [105, 110, 105, 116, 10] (Some comm_entry) (Some 4096),
        CallWrite ''proc/1/comm'' (BytesIO [105, 110, 105, 116, 10]) (Some comm_entry)
          (Some 4096)]\<rparr>)
   \<and> int (length ([105, 110, 105, 116, 10] :: bytes)) \<noteq> 4096"
  by (simp add: write_volatile_def volatile_try_def comm_entry_def procfs_def size_or_len_def
      self_write_bytes_def write_bytes_def write'_def ListOutput_def world0_def)

text \<open>
  C2. When the entry has a path and opening or reading it raises an \<open>OSError\<close> (of any
  subclass, \<open>PermissionError\<close> included), \<open>write_volatile\<close> does what
  \<open>self.write_bytes(output_path, b"", entry, 0)\<close> does: the empty buffer and the size
  \<open>0\<close> reach \<open>write\<close> under the given output path, and the only exception that can
  leave the method is one that \<open>write\<close> raises, never the read error.
\<close>

theorem write_volatile_oserror:
  assumes "entry_path entry = Inr p" and "VolatileStream_read p = Inl e"
    and "isinstance_OSError e"
  shows "write_volatile W VolatileStream_read output_path entry sz wld =
           self_write_bytes W output_path [] entry (Some 0) wld
       \<and> fst (write_volatile W VolatileStream_read output_path entry sz wld) =
           fst (write_impl W output_path (BytesIO []) entry (Some 0) (self wld))
       \<and> self (snd (write_volatile W VolatileStream_read output_path entry sz wld)) =
           snd (write_impl W output_path (BytesIO []) entry (Some 0) (self wld))"
proof -
  have "write_volatile W VolatileStream_read output_path entry sz wld =
           self_write_bytes W output_path [] entry (Some 0) wld"
    using assms
    by (simp add: write_volatile_def volatile_try_raise except_OSError_PermissionError_def)
  then show ?thesis
    by (simp add: self_write_bytes_fst self_write_bytes_self)
qed

theorem write_volatile_oserror_witness:
  "write_volatile ListOutput procfs ''proc/1/mem'' (Some mem_entry) (Some 4096)
     (world0 ([], False)) =
   (Inr (),
    \<lparr>self = ([(''proc/1/mem'', [], Some 0)], False),
     handles = [],
     trace = [CallWriteBytes ''proc/1/mem'' [] (Some mem_entry) (Some 0),
              CallWrite ''proc/1/mem'' (BytesIO []) (Some mem_entry) (Some 0)]\<rparr>)"
proof -
  have path: "entry_path (Some mem_entry) = Inr ''/proc/1/mem''"
    by (simp add: mem_entry_def)
  have rd: "procfs ''/proc/1/mem'' = Inl (OSError ''PermissionError'')"
    by (simp add: procfs_def)
  have os: "isinstance_OSError (OSError ''PermissionError'')"
    by simp
  show ?thesis
    using
      write_volatile_oserror [where entry = "Some mem_entry" and p = "''/proc/1/mem''"
        and VolatileStream_read = procfs and e = "OSError ''PermissionError''"
        and W = ListOutput and output_path = "''proc/1/mem''" and sz = "Some 4096"
        and wld = "world0 ([], False)"]
      path rd os
    by (simp add: self_write_bytes_def write_bytes_def write'_def ListOutput_def world0_def)
qed




text \<open>
  C9. With \<open>entry = None\<close> the attribute access \<open>entry.path\<close> raises
  \<open>AttributeError\<close>, which the handler \<open>except (OSError, PermissionError)\<close> does not
  match: the exception leaves \<open>write_volatile\<close>, no call on \<open>self\<close> is made and the
  writer is as it was.
\<close>

theorem write_volatile_no_entry:
  "write_volatile W VolatileStream_read output_path None sz wld = (Inl AttributeError, wld)
   \<and> \<not> except_OSError_PermissionError AttributeError"
  by (simp add: write_volatile_def volatile_try_def except_OSError_PermissionError_def)

subsection \<open>write_entry\<close>

text \<open>
  C4. When \<open>entry.open()\<close> succeeds, \<open>write_entry\<close> leaves the handle it obtained
  closed, whatever \<open>write\<close> does: \<open>r\<close> below is \<open>Inr ()\<close> when \<open>write\<close> returned and
  \<open>Inl e\<close> when it raised \<open>e\<close>, and in both cases the outcome of \<open>write_entry\<close> is
  \<open>r\<close> with the handle closed.
\<close>

theorem write_entry_closes:
  assumes "entry_open_outcome entry = Inr content"
    and "write_impl W output_path
           (FileStream (length (handles wld)) (entry_open_mode entry) content) entry sz
           (self wld) = (r, st)"
  shows "write_entry W output_path entry sz wld =
           (r, \<lparr>self = st, handles = handles wld @ [FhClosed],
                trace = trace wld @
                  [CallWrite output_path
                     (FileStream (length (handles wld)) (entry_open_mode entry) content)
                     entry sz]\<rparr>)
       \<and> fst (entry_open entry wld) =
           Inr (FileStream (length (handles wld)) (entry_open_mode entry) content)
       \<and> closed (FileStream (length (handles wld)) (entry_open_mode entry) content)
           (snd (write_entry W output_path entry sz wld))"
  using assms by (simp add: write_entry_def entry_open_def write'_def)

theorem write_entry_closes_witness:
  "write_entry Output ''etc/hostname'' (Some (Path ''/etc/hostname'' (Inr [104, 10]))) None
     (world0 ()) =
   (Inl NotImplementedError,
    \<lparr>self = (), handles = [FhClosed],
     trace = [CallWrite ''etc/hostname'' (FileStream 0 ModeText [104, 10])
                (Some (Path ''/etc/hostname'' (Inr [104, 10]))) None]\<rparr>)
   \<and> write_entry ListOutput ''etc/hostname''
       (Some (FilesystemEntry ''/etc/hostname'' (Inr [104, 10]))) None (world0 ([], False)) =
   (Inr (),
    \<lparr>self = ([(''etc/hostname'', [104, 10], None)], False), handles = [FhClosed],
     trace = [CallWrite ''etc/hostname'' (FileStream 0 ModeBinary [104, 10])
                (Some (FilesystemEntry ''/etc/hostname'' (Inr [104, 10]))) None]\<rparr>)"
  using
    write_entry_closes [where entry = "Some (Path ''/etc/hostname'' (Inr [104, 10]))"
      and content = "[104, 10]" and W = Output and output_path = "''etc/hostname''"
      and wld = "world0 ()" and sz = None and r = "Inl NotImplementedError" and st = "()"]
    write_entry_closes
      [where entry = "Some (FilesystemEntry ''/etc/hostname'' (Inr [104, 10]))"
      and content = "[104, 10]" and W = ListOutput and output_path = "''etc/hostname''"
      and wld = "world0 ([], False)" and sz = None and r = "Inr ()"
      and st = "([(''etc/hostname'', [104, 10], None)], False)"]
  by (simp add: Output_def ListOutput_def world0_def)

text \<open>
  C5. When \<open>entry.open()\<close> raises \<open>e\<close>, \<open>write_entry\<close> raises that same \<open>e\<close>: no call
  of \<open>write\<close> is made, no handle is opened and the writer is as it was.
\<close>

theorem write_entry_open_raises:
  assumes "entry_open_outcome entry = Inl e"
  shows "write_entry W output_path entry sz wld = (Inl e, wld)"
  using assms by (simp add: write_entry_def entry_open_def)

theorem write_entry_open_raises_witness:
  "write_entry ListOutput ''var/log/gone'' (Some gone_entry) None (world0 ([], False)) =
     (Inl SourceUnavailable, \<lparr>self = ([], False), handles = [], trace = []\<rparr>)"
  using write_entry_open_raises [where entry = "Some gone_entry" and e = SourceUnavailable
      and W = ListOutput and output_path = "''var/log/gone''" and sz = None
      and wld = "world0 ([], False)"]
  by (simp add: gone_entry_def world0_def)

subsection \<open>write_bytes\<close>

text \<open>
  C7. \<open>write_bytes(p, b, ref)\<close>, for every buffer \<open>b\<close>, the empty one included, has
  no failure of its own: its outcome is the outcome of \<open>write\<close>, called under the path
  \<open>p\<close> with an in-memory stream over \<open>b\<close> and no size. The record is made by the
  concrete writer's \<open>write\<close>, so the size of the record is stated for a writer that
  does what the docstring of \<open>write\<close> says (it writes the file-like object it is given
  under the output path): if \<open>artifacts\<close> reads what a writer's state holds under a
  path, and \<open>write\<close>, whenever it returns from an in-memory stream given without a
  size, has put the content of that stream under the output path, then when \<open>write\<close>
  does not fail, \<open>write_bytes\<close> returns and the record under \<open>p\<close> is \<open>b\<close>, of size
  \<open>len(b)\<close> exactly.
\<close>

theorem write_bytes_delegates:
  "fst (write_bytes W p b ref None wld) = fst (write_impl W p (BytesIO b) ref None (self wld))
   \<and> ((\<forall>output_path data entry st st'.
          write_impl W output_path (BytesIO data) entry None st = (Inr (), st') \<longrightarrow>
          artifacts st' output_path = Some data)
        \<and> fst (write_impl W p (BytesIO b) ref None (self wld)) = Inr ()
      \<longrightarrow> fst (write_bytes W p b ref None wld) = Inr ()
        \<and> artifacts (self (snd (write_bytes W p b ref None wld))) p = Some b
        \<and> map_option length (artifacts (self (snd (write_bytes W p b ref None wld))) p) =
            Some (length b))"
proof -
  have outcome: "fst (write_bytes W p b ref None wld) =
      fst (write_impl W p (BytesIO b) ref None (self wld))"
    by (simp add: write_bytes_def write'_fst)
  have state: "self (snd (write_bytes W p b ref None wld)) =
      snd (write_impl W p (BytesIO b) ref None (self wld))"
    by (simp add: write_bytes_def write'_self)
  have recorded: "artifacts (self (snd (write_bytes W p b ref None wld))) p = Some b"
    if contract: "\<forall>output_path data entry st st'.
          write_impl W output_path (BytesIO data) entry None st = (Inr (), st') \<longrightarrow>
          artifacts st' output_path = Some data"
      and accepted: "fst (write_impl W p (BytesIO b) ref None (self wld)) = Inr ()"
  proof -
    from accepted have "write_impl W p (BytesIO b) ref None (self wld) =
        (Inr (), snd (write_impl W p (BytesIO b) ref None (self wld)))"
      by (simp add: prod_eq_iff)
    with contract have "artifacts (snd (write_impl W p (BytesIO b) ref None (self wld))) p =
        Some b"
      by blast
    with state show ?thesis
      by simp
  qed
  show ?thesis
    using outcome recorded by auto
qed

theorem write_bytes_delegates_witness:
  "fst (write_bytes ListOutput ''a/b.txt'' [104, 101, 108, 108, 111] None None
          (world0 ([], False))) = Inr ()
   \<and> ListOutput_artifacts
       (self (snd (write_bytes ListOutput ''a/b.txt'' [104, 101, 108, 108, 111] None None
                     (world0 ([], False))))) ''a/b.txt'' = Some [104, 101, 108, 108, 111]
   \<and> map_option length
       (ListOutput_artifacts
          (self (snd (write_bytes ListOutput ''a/b.txt'' [104, 101, 108, 108, 111] None None
                        (world0 ([], False))))) ''a/b.txt'') = Some 5
   \<and> fst (write_bytes ListOutput ''empty'' [] None None (world0 ([], False))) = Inr ()
   \<and> ListOutput_artifacts
       (self (snd (write_bytes ListOutput ''empty'' [] None None (world0 ([], False)))))
       ''empty'' = Some []
   \<and> map_option length
       (ListOutput_artifacts
          (self (snd (write_bytes ListOutput ''empty'' [] None None (world0 ([], False)))))
          ''empty'') = Some 0"
proof -
  have contract: "\<forall>output_path data entry st st'.
      write_impl ListOutput output_path (BytesIO data) entry None st = (Inr (), st') \<longrightarrow>
      ListOutput_artifacts st' output_path = Some data"
    by (auto simp: ListOutput_def ListOutput_artifacts_def)
  have accepted1: "fst (write_impl ListOutput ''a/b.txt'' (BytesIO [104, 101, 108, 108, 111])
      None None (self (world0 ([], False)))) = Inr ()"
    by (simp add: ListOutput_def)
  have accepted2: "fst (write_impl ListOutput ''empty'' (BytesIO []) None None
      (self (world0 ([], False)))) = Inr ()"
    by (simp add: ListOutput_def)
  note hello =
    mp [OF conjunct2 [OF write_bytes_delegates [where W = ListOutput
          and artifacts = ListOutput_artifacts and p = "''a/b.txt''"
          and b = "[104, 101, 108, 108, 111]" and ref = None and wld = "world0 ([], False)"]]
        conjI [OF contract accepted1]]
  note empty =
    mp [OF conjunct2 [OF write_bytes_delegates [where W = ListOutput
          and artifacts = ListOutput_artifacts and p = "''empty''" and b = "[]"
          and ref = None and wld = "world0 ([], False)"]]
        conjI [OF contract accepted2]]
  show ?thesis
    using hello empty by simp
qed

text \<open>
  C10. \<open>write_bytes\<close> hands its \<open>size\<close> argument to \<open>write\<close> as it is, whatever it is:
  the outcome of \<open>write_bytes\<close> and the state of the writer afterwards are those of
  \<open>write\<close> run with that same \<open>size\<close>, and the one call made carries it. When the
  caller gave none, \<open>write\<close> runs with \<open>None\<close>, not with \<open>len(data)\<close>.
\<close>

theorem write_bytes_forwards_size:
  "write_bytes W output_path data entry sz wld =
     (fst (write_impl W output_path (BytesIO data) entry sz (self wld)),
      wld\<lparr>self := snd (write_impl W output_path (BytesIO data) entry sz (self wld)),
          trace := trace wld @ [CallWrite output_path (BytesIO data) entry sz]\<rparr>)
   \<and> write_bytes W output_path data entry None wld =
     (fst (write_impl W output_path (BytesIO data) entry None (self wld)),
      wld\<lparr>self := snd (write_impl W output_path (BytesIO data) entry None (self wld)),
          trace := trace wld @ [CallWrite output_path (BytesIO data) entry None]\<rparr>)"
  by (simp add: write_bytes_def write'_eq)

subsection \<open>init and close\<close>

text \<open>
  C8. The default \<open>init(target)\<close> does nothing, for every target: it returns \<open>None\<close>,
  makes no call on \<open>self\<close> and leaves the writer, and the rest of the state, as it was.
\<close>

theorem init_noop:
  "init target wld = (Inr (), wld)
   \<and> trace (snd (init target wld)) = trace wld
   \<and> self (snd (init target wld)) = self wld"
  by (simp add: init_def)

text \<open>
  C6 (as the code has it). The base class keeps no record of \<open>close()\<close> and raises
  \<open>WriterClosed\<close> nowhere: \<open>close\<close> only runs the subclass's \<open>close\<close> and changes
  nothing but the writer's own state. A write operation called afterwards does what it
  does at any other time, on the state that \<open>close\<close> left:
  \<^item> \<open>write\<close> and \<open>write_bytes\<close> run the subclass's \<open>write\<close> once; its outcome and
    its record are theirs;
  \<^item> \<open>write_entry\<close> raises what \<open>entry.open()\<close> raised, or runs the subclass's
    \<open>write\<close> once on the opened stream and closes it;
  \<^item> \<open>write_volatile\<close> raises \<open>AttributeError\<close> when the entry has no \<open>path\<close>,
    raises what the read raised when that is not an \<open>OSError\<close>, and otherwise runs the
    subclass's \<open>write\<close> once, on the bytes read or on the empty buffer with size \<open>0\<close>.
  Whether a write after \<open>close()\<close> is refused is thus up to the subclass's \<open>write\<close>.
\<close>

theorem write_after_close:
  assumes "close W wld = (r, wld')"
  shows "r = fst (close_impl W (self wld))
       \<and> wld' = wld\<lparr>self := snd (close_impl W (self wld))\<rparr>
       \<and> write' W p fh entry sz wld' =
           (fst (write_impl W p fh entry sz (self wld')),
            wld'\<lparr>self := snd (write_impl W p fh entry sz (self wld')),
                 trace := trace wld' @ [CallWrite p fh entry sz]\<rparr>)
       \<and> write_bytes W p b entry sz wld' =
           (fst (write_impl W p (BytesIO b) entry sz (self wld')),
            wld'\<lparr>self := snd (write_impl W p (BytesIO b) entry sz (self wld')),
                 trace := trace wld' @ [CallWrite p (BytesIO b) entry sz]\<rparr>)
       \<and> (\<forall>e. entry_open_outcome entry = Inl e \<longrightarrow>
            write_entry W p entry sz wld' = (Inl e, wld'))
       \<and> (\<forall>content. entry_open_outcome entry = Inr content \<longrightarrow>
            write_entry W p entry sz wld' =
              (fst (write_impl W p
                      (FileStream (length (handles wld')) (entry_open_mode entry) content)
                      entry sz (self wld')),
               \<lparr>self =
                  snd (write_impl W p
                         (FileStream (length (handles wld')) (entry_open_mode entry) content)
                         entry sz (self wld')),
                handles = handles wld' @ [FhClosed],
                trace = trace wld' @
                  [CallWrite p
                     (FileStream (length (handles wld')) (entry_open_mode entry) content)
                     entry sz]\<rparr>))
       \<and> (\<forall>e. entry_path entry = Inl e \<longrightarrow>
            e = AttributeError
            \<and> write_volatile W VolatileStream_read p entry sz wld' = (Inl e, wld'))
       \<and> (\<forall>q buf. entry_path entry = Inr q \<and> VolatileStream_read q = Inr buf \<longrightarrow>
            write_volatile W VolatileStream_read p entry sz wld' =
              (fst (write_impl W p (BytesIO buf) entry (Some (size_or_len sz buf))
                      (self wld')),
               wld'\<lparr>self :=
                      snd (write_impl W p (BytesIO buf) entry (Some (size_or_len sz buf))
                             (self wld')),
                    trace := trace wld' @
                      [CallWriteBytes p buf entry (Some (size_or_len sz buf)),
                       CallWrite p (BytesIO buf) entry (Some (size_or_len sz buf))]\<rparr>))
       \<and> (\<forall>q e. entry_path entry = Inr q \<and> VolatileStream_read q = Inl e
              \<and> isinstance_OSError e \<longrightarrow>
            write_volatile W VolatileStream_read p entry sz wld' =
              (fst (write_impl W p (BytesIO []) entry (Some 0) (self wld')),
               wld'\<lparr>self := snd (write_impl W p (BytesIO []) entry (Some 0) (self wld')),
                    trace := trace wld' @
                      [CallWriteBytes p [] entry (Some 0),
                       CallWrite p (BytesIO []) entry (Some 0)]\<rparr>))
       \<and> (\<forall>q e. entry_path entry = Inr q \<and> VolatileStream_read q = Inl e
              \<and> \<not> isinstance_OSError e \<longrightarrow>
            write_volatile W VolatileStream_read p entry sz wld' = (Inl e, wld'))"
proof -
  have c1: "r = fst (close_impl W (self wld))"
    using assms by (auto simp: close_def split: prod.splits)
  have c2: "wld' = wld\<lparr>self := snd (close_impl W (self wld))\<rparr>"
    using assms by (auto simp: close_def split: prod.splits)
  have c3: "\<forall>e. entry_open_outcome entry = Inl e \<longrightarrow>
      write_entry W p entry sz wld' = (Inl e, wld')"
    by (simp add: write_entry_def entry_open_def)
  have c4: "\<forall>content. entry_open_outcome entry = Inr content \<longrightarrow>
      write_entry W p entry sz wld' =
        (fst (write_impl W p
                (FileStream (length (handles wld')) (entry_open_mode entry) content)
                entry sz (self wld')),
         \<lparr>self =
            snd (write_impl W p
                   (FileStream (length (handles wld')) (entry_open_mode entry) content)
                   entry sz (self wld')),
          handles = handles wld' @ [FhClosed],
          trace = trace wld' @
            [CallWrite p
               (FileStream (length (handles wld')) (entry_open_mode entry) content)
               entry sz]\<rparr>)"
    by (simp add: write_entry_opened)
  have c5: "\<forall>e. entry_path entry = Inl e \<longrightarrow>
      e = AttributeError
      \<and> write_volatile W VolatileStream_read p entry sz wld' = (Inl e, wld')"
    using entry_path_error write_volatile_no_path by blast
  have c6: "\<forall>q buf. entry_path entry = Inr q \<and> VolatileStream_read q = Inr buf \<longrightarrow>
      write_volatile W VolatileStream_read p entry sz wld' =
        (fst (write_impl W p (BytesIO buf) entry (Some (size_or_len sz buf)) (self wld')),
         wld'\<lparr>self :=
                snd (write_impl W p (BytesIO buf) entry (Some (size_or_len sz buf))
                       (self wld')),
              trace := trace wld' @
                [CallWriteBytes p buf entry (Some (size_or_len sz buf)),
                 CallWrite p (BytesIO buf) entry (Some (size_or_len sz buf))]\<rparr>)"
    by (simp add: write_volatile_read)
  have c7: "\<forall>q e. entry_path entry = Inr q \<and> VolatileStream_read q = Inl e
        \<and> isinstance_OSError e \<longrightarrow>
      write_volatile W VolatileStream_read p entry sz wld' =
        (fst (write_impl W p (BytesIO []) entry (Some 0) (self wld')),
         wld'\<lparr>self := snd (write_impl W p (BytesIO []) entry (Some 0) (self wld')),
              trace := trace wld' @
                [CallWriteBytes p [] entry (Some 0),
                 CallWrite p (BytesIO []) entry (Some 0)]\<rparr>)"
    by (simp add: write_volatile_caught)
  have c8: "\<forall>q e. entry_path entry = Inr q \<and> VolatileStream_read q = Inl e
        \<and> \<not> isinstance_OSError e \<longrightarrow>
      write_volatile W VolatileStream_read p entry sz wld' = (Inl e, wld')"
    by (simp add: write_volatile_not_caught)
  show ?thesis
    by (intro conjI c1 c2 c3 c4 c5 c6 c7 c8) (simp_all add: write'_eq write_bytes_def)
qed

theorem write_after_close_witness:
  "close ListOutput (world0 ([], False)) =
     (Inr (), \<lparr>self = ([], True), handles = [], trace = []\<rparr>)
   \<and> write_bytes ListOutput ''a/b.txt'' [104, 105] None None
       \<lparr>self = ([], True), handles = [], trace = []\<rparr> =
     (Inr (),
      \<lparr>self = ([(''a/b.txt'', [104, 105], None)], True), handles = [],
       trace = [CallWrite ''a/b.txt'' (BytesIO [104, 105]) None None]\<rparr>)
   \<and> write_volatile ListOutput procfs ''proc/1/mem'' (Some mem_entry) None
       \<lparr>self = ([], True), handles = [], trace = []\<rparr> =
     (Inr (),
      \<lparr>self = ([(''proc/1/mem'', [], Some 0)], True), handles = [],
       trace = [CallWriteBytes ''proc/1/mem'' [] (Some mem_entry) (Some 0),
                CallWrite ''proc/1/mem'' (BytesIO []) (Some mem_entry) (Some 0)]\<rparr>)
   \<and> write_entry ListOutput ''var/log/gone'' (Some gone_entry) None
       \<lparr>self = ([], True), handles = [], trace = []\<rparr> =
     (Inl SourceUnavailable, \<lparr>self = ([], True), handles = [], trace = []\<rparr>)"
proof -
  have cl: "close ListOutput (world0 ([], False)) =
      (Inr (), \<lparr>self = ([], True), handles = [], trace = []\<rparr>)"
    by (simp add: close_def ListOutput_def world0_def)
  have path: "entry_path (Some mem_entry) = Inr ''/proc/1/mem''"
    by (simp add: mem_entry_def)
  have rd: "procfs ''/proc/1/mem'' = Inl (OSError ''PermissionError'')"
    by (simp add: procfs_def)
  have gone: "entry_open_outcome (Some gone_entry) = Inl SourceUnavailable"
    by (simp add: gone_entry_def)
  note bytes_after =
    write_after_close [OF cl, where p = "''a/b.txt''" and b = "[104, 105]" and entry = None
      and sz = None,
      THEN conjunct2, THEN conjunct2, THEN conjunct2, THEN conjunct1]
  note open_fails_after =
    write_after_close [OF cl, where p = "''var/log/gone''" and entry = "Some gone_entry"
      and sz = None,
      THEN conjunct2, THEN conjunct2, THEN conjunct2, THEN conjunct2, THEN conjunct1]
  note caught_after =
    write_after_close [OF cl, where p = "''proc/1/mem''" and entry = "Some mem_entry"
      and sz = None and VolatileStream_read = procfs,
      THEN conjunct2, THEN conjunct2, THEN conjunct2, THEN conjunct2, THEN conjunct2,
      THEN conjunct2, THEN conjunct2, THEN conjunct2, THEN conjunct1]
  have bytes: "write_bytes ListOutput ''a/b.txt'' [104, 105] None None
       \<lparr>self = ([], True), handles = [], trace = []\<rparr> =
     (Inr (),
      \<lparr>self = ([(''a/b.txt'', [104, 105], None)], True), handles = [],
       trace = [CallWrite ''a/b.txt'' (BytesIO [104, 105]) None None]\<rparr>)"
    using bytes_after by (simp add: ListOutput_def)
  have os: "isinstance_OSError (OSError ''PermissionError'')"
    by simp
  note caught = caught_after [rule_format, OF conjI [OF path conjI [OF rd os]]]
  from caught have volatile: "write_volatile ListOutput procfs ''proc/1/mem'' (Some mem_entry) None
       \<lparr>self = ([], True), handles = [], trace = []\<rparr> =
     (Inr (),
      \<lparr>self = ([(''proc/1/mem'', [], Some 0)], True), handles = [],
       trace = [CallWriteBytes ''proc/1/mem'' [] (Some mem_entry) (Some 0),
                CallWrite ''proc/1/mem'' (BytesIO []) (Some mem_entry) (Some 0)]\<rparr>)"
    by (simp add: ListOutput_def)
  have opened: "write_entry ListOutput ''var/log/gone'' (Some gone_entry) None
       \<lparr>self = ([], True), handles = [], trace = []\<rparr> =
     (Inl SourceUnavailable, \<lparr>self = ([], True), handles = [], trace = []\<rparr>)"
    by (rule open_fails_after [rule_format, OF gone])
  from cl bytes volatile opened show ?thesis
    by (intro conjI)
qed

text \<open>
  C6 as the specification states it fails. In the base class, \<open>close()\<close> raises
  \<open>NotImplementedError\<close> and so does a later \<open>write_bytes\<close>: the failure is not
  \<open>WriterClosed\<close>. In a subclass whose \<open>write\<close> has no check of its own, a
  \<open>write_bytes\<close> after a successful \<open>close()\<close> returns and the record is made.
\<close>

theorem write_after_close_counterexample:
  "close Output (world0 ()) = (Inl NotImplementedError, world0 ())
   \<and> write_bytes Output ''a/b.txt'' [104, 105] None None (snd (close Output (world0 ()))) =
       (Inl NotImplementedError,
        \<lparr>self = (), handles = [],
         trace = [CallWrite ''a/b.txt'' (BytesIO [104, 105]) None None]\<rparr>)
   \<and> NotImplementedError \<noteq> WriterClosed
   \<and> close ListOutput (world0 ([], False)) =
       (Inr (), \<lparr>self = ([], True), handles = [], trace = []\<rparr>)
   \<and> write_bytes ListOutput ''a/b.txt'' [104, 105] None None
       (snd (close ListOutput (world0 ([], False)))) =
       (Inr (),
        \<lparr>self = ([(''a/b.txt'', [104, 105], None)], True), handles = [],
         trace = [CallWrite ''a/b.txt'' (BytesIO [104, 105]) None None]\<rparr>)"
  by (simp add: close_def write_bytes_def write'_def Output_def ListOutput_def world0_def
      WriterClosed_def)

end
